theory Spec2Isabelle
  imports Main
begin

section \<open>Data model (frontend/src/types/index.ts)\<close>

text \<open>
  The interfaces of the client, as records. Field names are those of the source, with a
  short prefix where two interfaces share a name (\<open>session_id\<close>, \<open>message\<close>) or where
  the name is reserved (\<open>id\<close>, \<open>text\<close>). A field that the code reads with \<open>?.\<close> or
  \<open>||\<close>, so that it may be absent from the JSON the backend sent, is an \<open>option\<close>.
  The \<open>any\<close>-valued clause metadata and the floating-point confidence score are read by
  no handler and are left out.
\<close>

record DocumentMetadata =
  document_type :: string
  parties :: "string list"
  dates :: "string list"
  contract_value :: "string option"
  jurisdiction :: "string option"
  governing_law :: "string option"

record Clause =
  clause_id :: string
  title :: string
  clause_text :: string
  clause_type :: string
  start_page :: nat
  end_page :: nat

record DocumentAnalysis =
  document_id :: string
  document_name :: string
  metadata :: DocumentMetadata
  clauses :: "Clause list"
  summary :: "string option"
  processing_timestamp :: string

record ClauseExplanation =
  ce_clause_id :: string
  original_text :: string
  explanation :: string
  key_points :: "string list"
  risks :: "string list"
  plain_language :: string

datatype role = User | Assistant

record ChatMessage =
  role :: role
  content :: string
  timestamp :: string

record SessionData =
  sessionId :: string
  documentName :: "string option"
  analysis :: "DocumentAnalysis option"
  conversationHistory :: "ChatMessage list"

record UploadResponse =
  up_session_id :: "string option"
  up_document_name :: "string option"
  up_analysis :: "DocumentAnalysis option"
  up_message :: string

record ChatResponse =
  cr_session_id :: string
  response :: string
  cr_timestamp :: string

record SummaryResponse =
  sr_session_id :: string
  sr_summary :: string
  sr_message :: string

text \<open>The payload of \<open>GET /sessions/{id}\<close>, as \<open>getSession\<close> reads it.\<close>

record SessionBody =
  sb_analysis :: "DocumentAnalysis option"
  conversation_history :: "ChatMessage list option"

record SessionPayload =
  sp_session_id :: "string option"
  sp_data :: "SessionBody option"

section \<open>HTTP and exceptions\<close>

text \<open>
  A request is what axios is asked to send. The answer of the backend is an input of the
  model: a call either resolves with the response data or rejects with an error object.
  An error object carries \<open>message\<close> (possibly undefined) and \<open>response?.status\<close>;
  \<open>new Error(m)\<close> has the message \<open>m\<close> and no response.
\<close>

datatype http_method = GET | POST | DELETE

datatype body = NoBody | FormFile string | JsonContent string

datatype request = Request http_method string body

record js_error =
  err_message :: "string option"
  err_status :: "nat option"

datatype 'a outcome = Resolved 'a | Rejected js_error

definition Error :: "string \<Rightarrow> js_error" where
  "Error m = \<lparr>err_message = Some m, err_status = None\<rparr>"

text \<open>\<open>x || d\<close> on a possibly undefined string: the empty string is falsy.\<close>

definition or_default :: "string option \<Rightarrow> string \<Rightarrow> string" where
  "or_default x d = (case x of None \<Rightarrow> d | Some v \<Rightarrow> (if v = [] then d else v))"

text \<open>
  \<open>await this.api.post(...)\<close>: one request is issued; the awaited value is the response
  data, or the rejection is thrown. Every client operation returns the requests it issued
  together with its result, \<open>Inl\<close> for a thrown error.
\<close>

definition api_call :: "request \<Rightarrow> 'a outcome \<Rightarrow> request list \<times> (js_error + 'a)" where
  "api_call req reply =
     ([req], case reply of Resolved d \<Rightarrow> Inr d | Rejected e \<Rightarrow> Inl e)"

section \<open>API client (frontend/src/services/apiService.ts)\<close>

definition uploadDocument ::
  "UploadResponse option outcome \<Rightarrow> string \<Rightarrow> request list \<times> (js_error + UploadResponse option)" where
  "uploadDocument reply file = api_call (Request POST ''/upload'' (FormFile file)) reply"

definition explain_request :: "string \<Rightarrow> string \<Rightarrow> request" where
  "explain_request sid cid = Request POST (''/explain/'' @ sid @ ''/'' @ cid) NoBody"

definition explainClause ::
  "ClauseExplanation outcome \<Rightarrow> string \<Rightarrow> string \<Rightarrow> request list \<times> (js_error + ClauseExplanation)" where
  "explainClause reply sid cid = api_call (explain_request sid cid) reply"

definition summarizeDocument ::
  "SummaryResponse outcome \<Rightarrow> string \<Rightarrow> request list \<times> (js_error + SummaryResponse)" where
  "summarizeDocument reply sid =
     (if sid = [] then ([], Inl (Error ''Session ID is required''))
      else api_call (Request POST (''/summarize/'' @ sid) NoBody) reply)"

definition chatWithDocument ::
  "ChatResponse outcome \<Rightarrow> string \<Rightarrow> string \<Rightarrow> request list \<times> (js_error + ChatResponse)" where
  "chatWithDocument reply sid msg =
     (if sid = [] then ([], Inl (Error ''Session ID is required for chat''))
      else
        (case api_call (Request POST (''/chat/'' @ sid) (JsonContent msg)) reply of
           (reqs, Inr d) \<Rightarrow> (reqs, Inr d)
         | (reqs, Inl e) \<Rightarrow>
             (if err_status e = Some 404
              then (reqs, Inl (Error ''Chat session not found. Please reload the page.''))
              else (reqs, Inl e))))"

definition getSession ::
  "SessionPayload outcome \<Rightarrow> string \<Rightarrow> request list \<times> (js_error + SessionData)" where
  "getSession reply sid =
     (case api_call (Request GET (''/sessions/'' @ sid) NoBody) reply of
        (reqs, Inl e) \<Rightarrow> (reqs, Inl e)
      | (reqs, Inr payload) \<Rightarrow>
          (reqs, Inr \<lparr>sessionId = or_default (sp_session_id payload) sid,
                      documentName =
                        (case sp_data payload of None \<Rightarrow> None
                         | Some d \<Rightarrow> map_option document_name (sb_analysis d)),
                      analysis =
                        (case sp_data payload of None \<Rightarrow> None | Some d \<Rightarrow> sb_analysis d),
                      conversationHistory =
                        (case sp_data payload of None \<Rightarrow> []
                         | Some d \<Rightarrow>
                             (case conversation_history d of None \<Rightarrow> [] | Some h \<Rightarrow> h))\<rparr>))"

definition deleteSession ::
  "string outcome \<Rightarrow> string \<Rightarrow> request list \<times> (js_error + string)" where
  "deleteSession reply sid =
     (if sid = [] then ([], Inl (Error ''Session ID is required''))
      else api_call (Request DELETE (''/sessions/'' @ sid) NoBody) reply)"

section \<open>Top-level coordinator (frontend/src/App.tsx)\<close>

record app_state =
  currentTab :: nat
  sessionData :: "SessionData option"
  app_loading :: bool
  app_error :: "string option"
  success :: "string option"
  documentAnalysis :: "DocumentAnalysis option"

text \<open>
  \<open>handleDocumentUpload\<close>, run to completion. The \<open>catch\<close> block is \<open>caught\<close>; it is
  entered by a rejected request and by the \<open>throw\<close> of the \<open>else\<close> branch, which is taken
  when \<open>response.data?.session_id\<close> is falsy (no data, no field, or the empty string).
\<close>

definition handleDocumentUpload ::
  "UploadResponse option outcome \<Rightarrow> string \<Rightarrow> app_state \<Rightarrow> app_state \<times> request list" where
  "handleDocumentUpload reply file s =
     (let s1 = s\<lparr>app_loading := True, app_error := None\<rparr>;
          (reqs, r) = uploadDocument reply file;
          caught = (\<lambda>err. s1\<lparr>app_error := Some (or_default (err_message err) ''Failed to upload document''),
                               sessionData := None,
                               documentAnalysis := None\<rparr>);
          missing = Error ''Invalid response: missing session ID'';
          s2 = (case r of
                  Inl err \<Rightarrow> caught err
                | Inr resp \<Rightarrow>
                    (case resp of
                       None \<Rightarrow> caught missing
                     | Some d \<Rightarrow>
                         (case up_session_id d of
                            None \<Rightarrow> caught missing
                          | Some sid \<Rightarrow>
                              if sid = [] then caught missing
                              else s1\<lparr>sessionData :=
                                         Some \<lparr>sessionId = sid,
                                               documentName = up_document_name d,
                                               analysis = up_analysis d,
                                               conversationHistory = []\<rparr>,
                                       documentAnalysis := up_analysis d,
                                       success := Some ''Document uploaded and processed successfully!'',
                                       currentTab := 1\<rparr>)))
      in (s2\<lparr>app_loading := False\<rparr>, reqs))"

definition handleSessionLoad :: "SessionData \<Rightarrow> app_state \<Rightarrow> app_state" where
  "handleSessionLoad session s =
     s\<lparr>sessionData := Some session, documentAnalysis := analysis session, currentTab := 1\<rparr>"

text \<open>
  \<open>loadSession\<close> of frontend/src/components/DocumentUpload.tsx, with \<open>onSessionLoad\<close>
  bound to \<open>handleSessionLoad\<close> as App does. Its \<open>catch\<close> block is empty.
\<close>

definition loadSession ::
  "SessionPayload outcome \<Rightarrow> string \<Rightarrow> app_state \<Rightarrow> app_state \<times> request list" where
  "loadSession reply sid s =
     (case getSession reply sid of
        (reqs, Inr session) \<Rightarrow> (handleSessionLoad session s, reqs)
      | (reqs, Inl err) \<Rightarrow> (s, reqs))"

section \<open>Chat view (frontend/src/components/ChatInterface.tsx)\<close>

text \<open>
  \<open>String.prototype.trim\<close> removes white space and line terminators from both ends. A
  string is a list of 8-bit characters here, read as Latin-1 code units: TAB, LF, VT, FF,
  CR, SPACE and NBSP are the white space of that range.
\<close>

definition is_white_space :: "char \<Rightarrow> bool" where
  "is_white_space c = (of_char c \<in> {9, 10, 11, 12, 13, 32, 160 :: nat})"

definition trim :: "string \<Rightarrow> string" where
  "trim s = rev (dropWhile is_white_space (rev (dropWhile is_white_space s)))"

text \<open>
  The state of the chat view: its four \<open>useState\<close> cells, and the \<open>sessionData\<close> prop,
  which \<open>onSessionUpdate\<close> (App's \<open>setSessionData\<close>) replaces.
\<close>

record chat_view =
  chat_session :: SessionData
  chat_message :: string
  chat_messages :: "ChatMessage list"
  chat_loading :: bool
  chat_error :: "string option"

text \<open>The effect on \<open>[sessionData]\<close> (lines 32-39), run at mount and when the prop changes.\<close>

definition syncSession :: "chat_view \<Rightarrow> chat_view" where
  "syncSession s =
     (if sessionId (chat_session s) = []
      then s\<lparr>chat_error := Some ''Session ID is not available. Please reload the page.''\<rparr>
      else s\<lparr>chat_messages := conversationHistory (chat_session s), chat_error := None\<rparr>)"

definition chat_mount :: "SessionData \<Rightarrow> chat_view" where
  "chat_mount sd =
     syncSession \<lparr>chat_session = sd, chat_message = [],
                  chat_messages = conversationHistory sd,
                  chat_loading = False, chat_error = None\<rparr>"

text \<open>
  \<open>handleSendMessage\<close>, run to completion; \<open>now\<close> is \<open>new Date().toISOString()\<close>. The
  handler reads \<open>message\<close>, \<open>messages\<close>, \<open>loading\<close> and \<open>sessionData\<close> of the render
  it was created in, which is the state \<open>s\<close> it is applied to.
\<close>

definition handleSendMessage ::
  "ChatResponse outcome \<Rightarrow> string \<Rightarrow> chat_view \<Rightarrow> chat_view \<times> request list" where
  "handleSendMessage reply now s =
     (if trim (chat_message s) = [] \<or> chat_loading s then (s, [])
      else if sessionId (chat_session s) = []
      then (s\<lparr>chat_error := Some ''Session ID is not available. Please reload the page.''\<rparr>, [])
      else
        (let userMessage = \<lparr>role = User, content = trim (chat_message s), timestamp = now\<rparr>;
             newMessages = chat_messages s @ [userMessage];
             s1 = s\<lparr>chat_messages := newMessages, chat_message := [],
                    chat_loading := True, chat_error := None\<rparr>;
             (reqs, r) = chatWithDocument reply (sessionId (chat_session s)) (content userMessage);
             s2 = (case r of
                     Inr resp \<Rightarrow>
                       (let assistantMessage =
                              \<lparr>role = Assistant, content = response resp,
                               timestamp = cr_timestamp resp\<rparr>;
                            updatedMessages = newMessages @ [assistantMessage]
                        in s1\<lparr>chat_messages := updatedMessages,
                              chat_session :=
                                (chat_session s)\<lparr>conversationHistory := updatedMessages\<rparr>\<rparr>)
                   | Inl err \<Rightarrow>
                       s1\<lparr>chat_error := Some (or_default (err_message err) ''Failed to send message''),
                          chat_messages := chat_messages s\<rparr>)
         in (s2\<lparr>chat_loading := False\<rparr>, reqs)))"

definition clearConversation :: "chat_view \<Rightarrow> chat_view \<times> request list" where
  "clearConversation s = (s\<lparr>chat_messages := [], chat_error := None\<rparr>, [])"

section \<open>Analysis view (DocumentAnalysis component, unnamed/part_000)\<close>

record analysis_view =
  da_session :: SessionData
  expandedClause :: "string option"
  clauseExplanations :: "string \<Rightarrow> ClauseExplanation option"
  loadingExplanations :: "string set"
  documentSummary :: "string option"
  loadingSummary :: bool
  da_error :: "string option"

definition da_mount :: "SessionData \<Rightarrow> analysis_view" where
  "da_mount sd =
     \<lparr>da_session = sd, expandedClause = None, clauseExplanations = Map.empty,
      loadingExplanations = {}, documentSummary = None, loadingSummary = False,
      da_error = (if sessionId sd = [] then Some ''Invalid session: No session ID available''
                  else None)\<rparr>"

text \<open>
  \<open>handleClauseExpand\<close> in two parts: \<open>expand_begin\<close> runs up to the \<open>await\<close> and
  returns the request it issued, if any; \<open>expand_settle\<close> is the rest of the handler, run
  when that request is answered. After the \<open>await\<close> the handler only uses functional
  updates (\<open>prev => ...\<close>), so it acts on the state current at that time.

  The cache is a map from clause ids to explanations. The response body is an explanation
  object, as \<open>explainClause\<close> declares it (\<open>Promise<ClauseExplanation>\<close>), hence truthy
  in the test \<open>!clauseExplanations[clauseId]\<close>. Clause ids that name a property every
  JavaScript object inherits (\<open>constructor\<close>, \<open>toString\<close>, ...) are treated as
  ordinary ids here; for those the code finds a truthy value in the empty cache and sends
  no request.
\<close>

definition expand_begin :: "string \<Rightarrow> analysis_view \<Rightarrow> analysis_view \<times> request list" where
  "expand_begin c v =
     (let v1 = v\<lparr>expandedClause := (if expandedClause v = Some c then None else Some c)\<rparr>
      in if clauseExplanations v c = None \<and> expandedClause v \<noteq> Some c
         then (v1\<lparr>loadingExplanations := insert c (loadingExplanations v1)\<rparr>,
               [explain_request (sessionId (da_session v)) c])
         else (v1, []))"

definition expand_settle ::
  "string \<Rightarrow> js_error + ClauseExplanation \<Rightarrow> analysis_view \<Rightarrow> analysis_view" where
  "expand_settle c r v =
     (let v2 = (case r of
                  Inr e \<Rightarrow> v\<lparr>clauseExplanations := (clauseExplanations v)(c \<mapsto> e)\<rparr>
                | Inl err \<Rightarrow> v)
      in v2\<lparr>loadingExplanations := loadingExplanations v2 - {c}\<rparr>)"

text \<open>The handler run to completion, when nothing happens between request and answer.\<close>

definition handleClauseExpand ::
  "ClauseExplanation outcome \<Rightarrow> string \<Rightarrow> analysis_view \<Rightarrow> analysis_view \<times> request list" where
  "handleClauseExpand reply c v =
     (let v1 = v\<lparr>expandedClause := (if expandedClause v = Some c then None else Some c)\<rparr>
      in if clauseExplanations v c = None \<and> expandedClause v \<noteq> Some c
         then
           (let v2 = v1\<lparr>loadingExplanations := insert c (loadingExplanations v1)\<rparr>;
                (reqs, r) = explainClause reply (sessionId (da_session v)) c;
                v3 = (case r of
                        Inr e \<Rightarrow> v2\<lparr>clauseExplanations := (clauseExplanations v2)(c \<mapsto> e)\<rparr>
                      | Inl err \<Rightarrow> v2)
            in (v3\<lparr>loadingExplanations := loadingExplanations v3 - {c}\<rparr>, reqs))
         else (v1, []))"

definition handleGenerateSummary ::
  "SummaryResponse outcome \<Rightarrow> analysis_view \<Rightarrow> analysis_view \<times> request list" where
  "handleGenerateSummary reply v =
     (if sessionId (da_session v) = [] then (v, [])
      else
        (let v1 = v\<lparr>loadingSummary := True\<rparr>;
             (reqs, r) = summarizeDocument reply (sessionId (da_session v));
             v2 = (case r of
                     Inr resp \<Rightarrow> v1\<lparr>documentSummary := Some (sr_summary resp)\<rparr>
                   | Inl err \<Rightarrow>
                       v1\<lparr>documentSummary := Some ''Failed to generate summary. Please try again.''\<rparr>)
         in (v2\<lparr>loadingSummary := False\<rparr>, reqs)))"

subsection \<open>The mounted analysis view with its outstanding requests\<close>

text \<open>
  Clicks and answers interleave. The system state is the view, the clause ids of the
  explanation requests that this instance of the view has issued and that are not yet
  answered, in order of issue, and the log of all requests it sent. \<open>Settle i reply\<close> answers the \<open>i\<close>-th outstanding request.
\<close>

record da_system =
  view :: analysis_view
  in_flight :: "string list"
  sent :: "request list"

datatype da_event =
    Expand string
  | Settle nat "ClauseExplanation outcome"
  | Summarize "SummaryResponse outcome"

definition da_init :: "SessionData \<Rightarrow> da_system" where
  "da_init sd = \<lparr>view = da_mount sd, in_flight = [], sent = []\<rparr>"

fun da_step :: "da_event \<Rightarrow> da_system \<Rightarrow> da_system" where
  "da_step (Expand c) s =
     (let (v, reqs) = expand_begin c (view s)
      in s\<lparr>view := v,
           in_flight := in_flight s @ (if reqs = [] then [] else [c]),
           sent := sent s @ reqs\<rparr>)"
| "da_step (Settle i reply) s =
     (if i < length (in_flight s)
      then
        (let c = in_flight s ! i;
             r = snd (explainClause reply (sessionId (da_session (view s))) c)
         in s\<lparr>view := expand_settle c r (view s),
              in_flight := take i (in_flight s) @ drop (Suc i) (in_flight s)\<rparr>)
      else s)"
| "da_step (Summarize reply) s =
     (let (v, reqs) = handleGenerateSummary reply (view s)
      in s\<lparr>view := v, sent := sent s @ reqs\<rparr>)"

fun run :: "da_event list \<Rightarrow> da_system \<Rightarrow> da_system" where
  "run [] s = s"
| "run (e # es) s = run es (da_step e s)"

subsection \<open>Switching tabs (App.tsx, lines 18 and 89-94)\<close>

text \<open>
  App renders the analysis view only while \<open>currentTab === 1\<close>, with
  \<open>documentAnalysis\<close> and \<open>sessionData\<close> present. A click on another tab removes the
  view; the return to the Analysis tab mounts a new instance, whose state cells start
  from their \<open>useState\<close> initial values (\<open>da_mount\<close>). \<open>handleTabChange\<close> changes the
  tab only, so the session stays the same. The answers to the requests of a removed
  instance are discarded, so these requests leave the model with it; what they sent stays
  in the log.
\<close>

definition handleTabChange :: "nat \<Rightarrow> app_state \<Rightarrow> app_state" where
  "handleTabChange tabIdx a = a\<lparr>currentTab := tabIdx\<rparr>"

text \<open>The \<open>sessionData\<close> prop of the analysis view, when App renders the view.\<close>

definition analysis_props :: "app_state \<Rightarrow> SessionData option" where
  "analysis_props a =
     (if currentTab a = 1 \<and> documentAnalysis a \<noteq> None then sessionData a else None)"

record tab_system =
  coordinator :: app_state
  mounted :: "da_system option"
  sent_before :: "request list"

datatype tab_event = TabChange nat | InView da_event

definition tab_init :: "app_state \<Rightarrow> tab_system" where
  "tab_init a = \<lparr>coordinator = a, mounted = map_option da_init (analysis_props a),
                 sent_before = []\<rparr>"

text \<open>All requests sent so far: by the removed instances and by the mounted one.\<close>

definition all_sent :: "tab_system \<Rightarrow> request list" where
  "all_sent t = sent_before t @ (case mounted t of None \<Rightarrow> [] | Some d \<Rightarrow> sent d)"

definition cached_explanation :: "tab_system \<Rightarrow> string \<Rightarrow> ClauseExplanation option" where
  "cached_explanation t c =
     (case mounted t of None \<Rightarrow> None | Some d \<Rightarrow> clauseExplanations (view d) c)"

fun tab_step :: "tab_event \<Rightarrow> tab_system \<Rightarrow> tab_system" where
  "tab_step (TabChange tabIdx) t =
     (let a = handleTabChange tabIdx (coordinator t)
      in case analysis_props a of
           None \<Rightarrow> t\<lparr>coordinator := a, mounted := None, sent_before := all_sent t\<rparr>
         | Some sd \<Rightarrow>
             (case mounted t of
                Some d \<Rightarrow> t\<lparr>coordinator := a\<rparr>
              | None \<Rightarrow> t\<lparr>coordinator := a, mounted := Some (da_init sd)\<rparr>))"
| "tab_step (InView e) t =
     (case mounted t of
        None \<Rightarrow> t
      | Some d \<Rightarrow> t\<lparr>mounted := Some (da_step e d)\<rparr>)"

fun tab_run :: "tab_event list \<Rightarrow> tab_system \<Rightarrow> tab_system" where
  "tab_run [] t = t"
| "tab_run (e # es) t = tab_run es (tab_step e t)"

section \<open>Predicates and sample inputs used by the theorems\<close>

text \<open>
  \<open>response.data?.session_id\<close> is falsy: the response has no data, the data has no
  \<open>session_id\<close> field, or the field is the empty string.
\<close>

definition lacks_session_id :: "UploadResponse option \<Rightarrow> bool" where
  "lacks_session_id resp =
     (case resp of None \<Rightarrow> True
      | Some d \<Rightarrow> (case up_session_id d of None \<Rightarrow> True | Some sid \<Rightarrow> sid = []))"

text \<open>Every clause id in the pending set has an explanation request outstanding.\<close>

definition pending_covered :: "da_system \<Rightarrow> bool" where
  "pending_covered s = (loadingExplanations (view s) \<subseteq> set (in_flight s))"

definition session_s1 :: SessionData where
  "session_s1 = \<lparr>sessionId = ''s1'', documentName = Some ''Lease.pdf'', analysis = None,
                 conversationHistory = []\<rparr>"

definition session_no_id :: SessionData where
  "session_no_id = \<lparr>sessionId = [], documentName = Some ''Lease.pdf'', analysis = None,
                    conversationHistory = []\<rparr>"

definition app_s1 :: app_state where
  "app_s1 = \<lparr>currentTab = 1, sessionData = Some session_s1, app_loading = False,
             app_error = None, success = Some ''Document uploaded and processed successfully!'',
             documentAnalysis = None\<rparr>"

definition no_id_response :: UploadResponse where
  "no_id_response = \<lparr>up_session_id = None, up_document_name = Some ''Other.pdf'',
                      up_analysis = None, up_message = ''processed''\<rparr>"

definition network_error :: js_error where
  "network_error = \<lparr>err_message = Some ''Network Error'', err_status = None\<rparr>"

definition not_found :: js_error where
  "not_found = \<lparr>err_message = Some ''Request failed with status code 404'',
                 err_status = Some 404\<rparr>"

definition chat_typing :: chat_view where
  "chat_typing = \<lparr>chat_session = session_s1, chat_message = '' What is the rent? '',
                  chat_messages = [], chat_loading = False, chat_error = None\<rparr>"

definition chat_blank :: chat_view where
  "chat_blank = \<lparr>chat_session = session_s1, chat_message = ''  '',
                 chat_messages = [], chat_loading = False, chat_error = None\<rparr>"

definition rent_reply :: ChatResponse where
  "rent_reply = \<lparr>cr_session_id = ''s1'', response = ''1200 per month.'', cr_timestamp = ''t1''\<rparr>"

definition chat_after_turn :: chat_view where
  "chat_after_turn = fst (handleSendMessage (Resolved rent_reply) ''t0'' chat_typing)"

definition lease_analysis :: DocumentAnalysis where
  "lease_analysis =
     \<lparr>document_id = ''d1'', document_name = ''Lease.pdf'',
      metadata = \<lparr>document_type = ''lease_agreement'', parties = [], dates = [],
                  contract_value = None, jurisdiction = None, governing_law = None\<rparr>,
      clauses = [\<lparr>clause_id = ''c1'', title = ''Rent'', clause_text = ''Rent is due monthly.'',
                  clause_type = ''payment'', start_page = 1, end_page = 1\<rparr>],
      summary = None, processing_timestamp = ''t''\<rparr>"

definition session_lease :: SessionData where
  "session_lease = \<lparr>sessionId = ''s1'', documentName = Some ''Lease.pdf'',
                    analysis = Some lease_analysis, conversationHistory = []\<rparr>"

definition app_lease :: app_state where
  "app_lease = \<lparr>currentTab = 1, sessionData = Some session_lease, app_loading = False,
                app_error = None, success = Some ''Document uploaded and processed successfully!'',
                documentAnalysis = Some lease_analysis\<rparr>"

definition c1_explanation :: ClauseExplanation where
  "c1_explanation = \<lparr>ce_clause_id = ''c1'', original_text = ''Rent is due monthly.'',
      explanation = ''The tenant pays every month.'', key_points = [''Monthly rent''],
      risks = [''Late fees''], plain_language = ''Pay rent each month.''\<rparr>"

section \<open>Auxiliary facts\<close>

lemma trim_eq_Nil_iff: "trim m = [] \<longleftrightarrow> (\<forall>c \<in> set m. is_white_space c)"
proof (cases "dropWhile is_white_space m")
  case Nil
  then have "\<forall>c \<in> set m. is_white_space c"
    by simp
  then show ?thesis
    unfolding trim_def Nil by simp
next
  case (Cons a as)
  then have "\<not> is_white_space a"
    using hd_dropWhile [of is_white_space m] by simp
  moreover have "a \<in> set m"
    using Cons set_dropWhileD [of a is_white_space m] by simp
  ultimately show ?thesis
    using Cons by (auto simp: trim_def)
qed

lemma trim_example: "trim '' What is the rent? '' = ''What is the rent?''"
  by (simp add: trim_def is_white_space_def)

lemma or_default_nonempty: "d \<noteq> [] \<Longrightarrow> or_default x d \<noteq> []"
  by (simp add: or_default_def split: option.splits)

text \<open>The three client operations that do validate the session identifier.\<close>

lemma validated_operations:
  "summarizeDocument r1 [] = ([], Inl (Error ''Session ID is required''))"
  "chatWithDocument r2 [] msg = ([], Inl (Error ''Session ID is required for chat''))"
  "deleteSession r3 [] = ([], Inl (Error ''Session ID is required''))"
  by (simp_all add: summarizeDocument_def chatWithDocument_def deleteSession_def)

text \<open>The handler run to completion is its first part followed by its second.\<close>

lemma handleClauseExpand_split:
  "handleClauseExpand reply c v =
     (case expand_begin c v of
        (v1, reqs) \<Rightarrow>
          if reqs = [] then (v1, [])
          else (expand_settle c (snd (explainClause reply (sessionId (da_session v)) c)) v1, reqs))"
  by (simp add: handleClauseExpand_def expand_begin_def expand_settle_def explainClause_def
      api_call_def Let_def split: outcome.splits)

lemma set_remove_nth:
  assumes "i < length xs" "x \<in> set xs" "x \<noteq> xs ! i"
  shows "x \<in> set (take i xs @ drop (Suc i) xs)"
proof -
  have "xs = take i xs @ xs ! i # drop (Suc i) xs"
    using assms(1) by (rule id_take_nth_drop)
  then have "set xs = set (take i xs) \<union> insert (xs ! i) (set (drop (Suc i) xs))"
    by (metis set_append list.simps(15))
  with assms(2,3) show ?thesis by auto
qed

lemma pending_covered_step: "pending_covered s \<Longrightarrow> pending_covered (da_step e s)"
proof (cases e)
  case (Expand c)
  assume "pending_covered s"
  then show ?thesis
    unfolding Expand by (auto simp: pending_covered_def expand_begin_def Let_def)
next
  case (Settle i reply)
  assume cov: "pending_covered s"
  show ?thesis
  proof (cases "i < length (in_flight s)")
    case False
    with cov show ?thesis
      unfolding Settle by simp
  next
    case True
    let ?c = "in_flight s ! i"
    let ?r = "snd (explainClause reply (sessionId (da_session (view s))) ?c)"
    have loading: "loadingExplanations (expand_settle ?c ?r (view s))
                     = loadingExplanations (view s) - {?c}"
      by (simp add: expand_settle_def Let_def split: sum.splits)
    have "loadingExplanations (view s) - {?c}
            \<subseteq> set (take i (in_flight s) @ drop (Suc i) (in_flight s))"
      using cov True set_remove_nth [of i "in_flight s"]
      unfolding pending_covered_def by blast
    with True loading show ?thesis
      unfolding Settle pending_covered_def by (simp add: Let_def)
  qed
next
  case (Summarize reply)
  assume "pending_covered s"
  then show ?thesis
    unfolding Summarize
    by (auto simp: pending_covered_def handleGenerateSummary_def Let_def
        split: prod.splits sum.splits)
qed

lemma pending_covered_run: "pending_covered s \<Longrightarrow> pending_covered (run evs s)"
  by (induction evs arbitrary: s) (simp_all add: pending_covered_step)

lemma expand_expanded_no_fetch:
  "expandedClause (view s) = Some c \<Longrightarrow>
     in_flight (da_step (Expand c) s) = in_flight s \<and> sent (da_step (Expand c) s) = sent s"
  by (simp add: expand_begin_def Let_def)

lemma cached_step:
  "clauseExplanations (view s) c \<noteq> None \<Longrightarrow> clauseExplanations (view (da_step e s)) c \<noteq> None"
  by (cases e)
     (auto simp: expand_begin_def expand_settle_def handleGenerateSummary_def Let_def
           split: prod.splits sum.splits)

lemma cached_run:
  "clauseExplanations (view s) c \<noteq> None \<Longrightarrow> clauseExplanations (view (run evs s)) c \<noteq> None"
proof (induction evs arbitrary: s)
  case Nil
  then show ?case by simp
next
  case (Cons ev evs)
  from Cons.prems have "clauseExplanations (view (da_step ev s)) c \<noteq> None"
    by (rule cached_step)
  then have "clauseExplanations (view (run evs (da_step ev s))) c \<noteq> None"
    by (rule Cons.IH)
  then show ?case by simp
qed

lemma expand_cached_no_fetch:
  "clauseExplanations (view s) c \<noteq> None \<Longrightarrow>
     in_flight (da_step (Expand c) s) = in_flight s \<and> sent (da_step (Expand c) s) = sent s
   \<and> clauseExplanations (view (da_step (Expand c) s)) = clauseExplanations (view s)
   \<and> snd (handleClauseExpand reply c (view s)) = []"
  by (auto simp add: expand_begin_def handleClauseExpand_def Let_def)

lemma settle_resolved_caches:
  "i < length (in_flight s) \<Longrightarrow>
     clauseExplanations (view (da_step (Settle i (Resolved e)) s)) (in_flight s ! i) = Some e"
  by (simp add: expand_settle_def explainClause_def api_call_def Let_def)

text \<open>
  As long as no tab is changed, the events act on the one mounted instance: the
  coordinator and the log of the removed instances stay as they are.
\<close>

lemma tab_run_in_view:
  "mounted t = Some d \<Longrightarrow>
     mounted (tab_run (map InView evs) t) = Some (run evs d)
   \<and> coordinator (tab_run (map InView evs) t) = coordinator t
   \<and> sent_before (tab_run (map InView evs) t) = sent_before t"
  by (induction evs arbitrary: t d) simp_all

section \<open>Upload\<close>

text \<open>
  C1 (as the code has it): for every upload whose response lacks a \<open>session_id\<close>, the
  handler ends with the error "Invalid response: missing session ID", has issued the one
  upload request, and has reset \<open>sessionData\<close> and \<open>documentAnalysis\<close> to null: the
  \<open>catch\<close> block clears both. The tab and the success message keep their values.
\<close>

theorem upload_missing_session_id_resets:
  "lacks_session_id resp \<Longrightarrow>
     handleDocumentUpload (Resolved resp) file s =
       (s\<lparr>app_error := Some ''Invalid response: missing session ID'',
          sessionData := None, documentAnalysis := None, app_loading := False\<rparr>,
        [Request POST ''/upload'' (FormFile file)])"
  by (auto simp: lacks_session_id_def handleDocumentUpload_def uploadDocument_def api_call_def
      Let_def Error_def or_default_def split: option.splits)

text \<open>The theorem at a response without the field, on a state that holds session \<open>s1\<close>.\<close>

theorem upload_missing_session_id_resets_witness:
  "lacks_session_id (Some no_id_response) \<and>
   handleDocumentUpload (Resolved (Some no_id_response)) ''Other.pdf'' app_s1 =
     (\<lparr>currentTab = 1, sessionData = None, app_loading = False,
       app_error = Some ''Invalid response: missing session ID'',
       success = Some ''Document uploaded and processed successfully!'',
       documentAnalysis = None\<rparr>,
      [Request POST ''/upload'' (FormFile ''Other.pdf'')])"
  using upload_missing_session_id_resets [of "Some no_id_response" "''Other.pdf''" app_s1]
  by (simp add: lacks_session_id_def no_id_response_def app_s1_def)

text \<open>
  C1 as stated fails: the session held before the upload is not the session held after
  it.
\<close>

theorem upload_missing_session_id_drops_session:
  "sessionData (fst (handleDocumentUpload (Resolved (Some no_id_response)) ''Other.pdf'' app_s1))
     \<noteq> sessionData app_s1"
  by (simp add: handleDocumentUpload_def uploadDocument_def api_call_def no_id_response_def
      app_s1_def Let_def)

section \<open>Session identifier validation\<close>

text \<open>
  C2: with the empty session identifier, \<open>explainClause\<close> and \<open>getSession\<close> issue their
  HTTP request (to \<open>/explain//c1\<close> and \<open>/sessions/\<close>) and fail only with the error of
  the backend; \<open>summarizeDocument\<close>, \<open>chatWithDocument\<close> and \<open>deleteSession\<close> fail
  locally (lemma \<open>validated_operations\<close>). The analysis view, which reports "Invalid
  session: No session ID available" for such a session, sends the request all the same
  when a clause is expanded.
\<close>

theorem explain_and_get_session_unvalidated:
  "explainClause (Rejected not_found) [] ''c1''
     = ([Request POST ''/explain//c1'' NoBody], Inl not_found)
   \<and> getSession (Rejected not_found) []
     = ([Request GET ''/sessions/'' NoBody], Inl not_found)
   \<and> da_error (da_mount session_no_id) = Some ''Invalid session: No session ID available''
   \<and> snd (handleClauseExpand (Rejected not_found) ''c1'' (da_mount session_no_id))
     = [Request POST ''/explain//c1'' NoBody]"
  by (simp add: explainClause_def explain_request_def getSession_def api_call_def
      handleClauseExpand_def da_mount_def session_no_id_def Let_def)

section \<open>Chat\<close>

text \<open>
  C3: when the chat request is answered with HTTP 404, the client throws the error
  "Chat session not found. Please reload the page."; the send handler shows exactly that
  message, and neither the local message list nor the session's conversation history
  gains a message. A send reaches the backend when the composed text is not blank, no
  send is in flight and the session has an identifier.
\<close>

theorem chat_404_session_not_found:
  assumes "trim (chat_message s) \<noteq> []" "\<not> chat_loading s" "sessionId (chat_session s) \<noteq> []"
      and "err_status err = Some 404"
  shows "snd (chatWithDocument (Rejected err) (sessionId (chat_session s)) msg)
           = Inl (Error ''Chat session not found. Please reload the page.'')
       \<and> (let (s', reqs) = handleSendMessage (Rejected err) now s
          in chat_error s' = Some ''Chat session not found. Please reload the page.''
           \<and> chat_messages s' = chat_messages s
           \<and> conversationHistory (chat_session s') = conversationHistory (chat_session s))"
  using assms
  by (simp add: handleSendMessage_def chatWithDocument_def api_call_def Let_def Error_def
      or_default_def)

theorem chat_404_session_not_found_witness:
  "trim (chat_message chat_typing) \<noteq> [] \<and> \<not> chat_loading chat_typing
   \<and> sessionId (chat_session chat_typing) \<noteq> [] \<and> err_status not_found = Some 404
   \<and> chat_error (fst (handleSendMessage (Rejected not_found) ''t0'' chat_typing))
       = Some ''Chat session not found. Please reload the page.''
   \<and> chat_messages (fst (handleSendMessage (Rejected not_found) ''t0'' chat_typing)) = []"
  using chat_404_session_not_found [of chat_typing not_found "''What is the rent?''" "''t0''"]
  by (auto simp add: chat_typing_def session_s1_def not_found_def trim_example
      split: prod.splits)

text \<open>
  C4: a successful send of a non-blank message from a history of length \<open>n\<close> leaves a
  history of length \<open>n + 2\<close>: the user's message (the trimmed text) at position \<open>n\<close>,
  the assistant's reply at position \<open>n + 1\<close>, and the first \<open>n\<close> messages as before.
  The session object receives the same list, so the effect that re-reads the session
  changes nothing, and exactly one request was issued.
\<close>

theorem send_success_appends_two:
  assumes "trim (chat_message s) \<noteq> []" "\<not> chat_loading s" "sessionId (chat_session s) \<noteq> []"
  shows "let (s', reqs) = handleSendMessage (Resolved resp) now s;
             user = \<lparr>role = User, content = trim (chat_message s), timestamp = now\<rparr>;
             assistant = \<lparr>role = Assistant, content = response resp,
                          timestamp = cr_timestamp resp\<rparr>;
             n = length (chat_messages s)
         in chat_messages s' = chat_messages s @ [user, assistant]
          \<and> length (chat_messages s') = n + 2
          \<and> chat_messages s' ! n = user
          \<and> chat_messages s' ! (n + 1) = assistant
          \<and> take n (chat_messages s') = chat_messages s
          \<and> conversationHistory (chat_session s') = chat_messages s'
          \<and> syncSession s' = s'
          \<and> reqs = [Request POST (''/chat/'' @ sessionId (chat_session s))
                      (JsonContent (trim (chat_message s)))]"
  using assms
  by (simp add: handleSendMessage_def chatWithDocument_def api_call_def Let_def nth_append
      syncSession_def)

theorem send_success_appends_two_witness:
  "trim (chat_message chat_typing) \<noteq> [] \<and> \<not> chat_loading chat_typing
   \<and> sessionId (chat_session chat_typing) \<noteq> []
   \<and> chat_messages (fst (handleSendMessage (Resolved rent_reply) ''t0'' chat_typing))
       = [\<lparr>role = User, content = ''What is the rent?'', timestamp = ''t0''\<rparr>,
          \<lparr>role = Assistant, content = ''1200 per month.'', timestamp = ''t1''\<rparr>]"
  using send_success_appends_two [of chat_typing rent_reply "''t0''"]
  by (simp add: chat_typing_def rent_reply_def session_s1_def trim_example Let_def
      split: prod.splits)

text \<open>
  C5: when the backend call of a send fails, the local history is again the list it was
  before the send (the appended user message is gone), the session object is unchanged,
  a non-empty error message is set, which the view displays, and loading is off.
\<close>

theorem send_failure_rolls_back:
  assumes "trim (chat_message s) \<noteq> []" "\<not> chat_loading s" "sessionId (chat_session s) \<noteq> []"
  shows "let (s', reqs) = handleSendMessage (Rejected err) now s
         in chat_messages s' = chat_messages s
          \<and> chat_session s' = chat_session s
          \<and> (\<exists>m. chat_error s' = Some m \<and> m \<noteq> [])
          \<and> \<not> chat_loading s'"
  using assms
  by (simp add: handleSendMessage_def chatWithDocument_def api_call_def Let_def Error_def
      or_default_nonempty)

theorem send_failure_rolls_back_witness:
  "trim (chat_message chat_typing) \<noteq> [] \<and> \<not> chat_loading chat_typing
   \<and> sessionId (chat_session chat_typing) \<noteq> []
   \<and> chat_messages (fst (handleSendMessage (Rejected network_error) ''t0'' chat_typing)) = []
   \<and> chat_error (fst (handleSendMessage (Rejected network_error) ''t0'' chat_typing)) \<noteq> None"
  using send_failure_rolls_back [of chat_typing network_error "''t0''"]
  by (auto simp add: chat_typing_def session_s1_def trim_example split: prod.splits)

text \<open>
  C9: when the composed text is empty or consists of white space only, or a send is in
  flight, the send handler does nothing: it issues no request and returns the state as it
  was (history, composer text, error and session alike).
\<close>

theorem send_blank_or_loading_noop:
  "(\<forall>c \<in> set (chat_message s). is_white_space c) \<or> chat_loading s \<Longrightarrow>
     handleSendMessage reply now s = (s, [])"
  by (auto simp: handleSendMessage_def trim_eq_Nil_iff)

theorem send_blank_or_loading_noop_witness:
  "((\<forall>c \<in> set (chat_message chat_blank). is_white_space c) \<or> chat_loading chat_blank)
   \<and> handleSendMessage (Resolved rent_reply) ''t0'' chat_blank = (chat_blank, [])"
  using send_blank_or_loading_noop [of chat_blank "Resolved rent_reply" "''t0''"]
  by (simp add: chat_blank_def is_white_space_def)

text \<open>
  C10: the clear action empties the local message list and the error, issues no request
  and leaves the session object, hence its \<open>conversationHistory\<close>, as it was (the
  composer text and the loading flag too). When the effect on the session runs again for
  a session with an identifier, the local list is the session's history once more.
\<close>

theorem clearConversation_keeps_session:
  "let (s', reqs) = clearConversation s
   in chat_messages s' = [] \<and> chat_error s' = None \<and> reqs = []
    \<and> chat_session s' = chat_session s
    \<and> chat_message s' = chat_message s \<and> chat_loading s' = chat_loading s
    \<and> (sessionId (chat_session s) \<noteq> [] \<longrightarrow>
         chat_messages (syncSession s') = conversationHistory (chat_session s))"
  by (simp add: clearConversation_def syncSession_def)

theorem clearConversation_keeps_session_witness:
  "sessionId (chat_session chat_after_turn) \<noteq> []
   \<and> length (conversationHistory (chat_session chat_after_turn)) = 2
   \<and> chat_messages (fst (clearConversation chat_after_turn)) = []
   \<and> chat_session (fst (clearConversation chat_after_turn)) = chat_session chat_after_turn
   \<and> chat_messages (syncSession (fst (clearConversation chat_after_turn)))
       = conversationHistory (chat_session chat_after_turn)"
  using clearConversation_keeps_session [of chat_after_turn]
  by (auto simp add: chat_after_turn_def handleSendMessage_def chatWithDocument_def api_call_def
      chat_typing_def session_s1_def rent_reply_def trim_example Let_def split: prod.splits)

section \<open>Clause explanations\<close>

text \<open>
  C6 (as the code has it): in every reachable state of the analysis view, every clause id
  in the pending set has at least one explanation request outstanding, and a click on
  the clause that is currently expanded starts no request. The pending set is written
  when a fetch starts and ends, and is not read when the handler decides to fetch.
\<close>

theorem pending_set_covered_by_in_flight:
  "loadingExplanations (view (run evs (da_init sd))) \<subseteq> set (in_flight (run evs (da_init sd)))
   \<and> (expandedClause (view (run evs (da_init sd))) = Some c \<longrightarrow>
        in_flight (da_step (Expand c) (run evs (da_init sd))) = in_flight (run evs (da_init sd))
      \<and> sent (da_step (Expand c) (run evs (da_init sd))) = sent (run evs (da_init sd)))"
proof -
  have "pending_covered (da_init sd)"
    by (simp add: pending_covered_def da_init_def da_mount_def)
  then have "pending_covered (run evs (da_init sd))"
    by (rule pending_covered_run)
  then show ?thesis
    using expand_expanded_no_fetch [of "run evs (da_init sd)" c]
    by (simp add: pending_covered_def)
qed

theorem pending_set_covered_by_in_flight_witness:
  "expandedClause (view (run [Expand ''c1''] (da_init session_s1))) = Some ''c1''
   \<and> loadingExplanations (view (run [Expand ''c1''] (da_init session_s1))) = {''c1''}
   \<and> in_flight (run [Expand ''c1''] (da_init session_s1)) = [''c1'']
   \<and> in_flight (da_step (Expand ''c1'') (run [Expand ''c1''] (da_init session_s1))) = [''c1'']"
  using pending_set_covered_by_in_flight [of "[Expand ''c1'']" session_s1 "''c1''"]
  by (simp add: da_init_def da_mount_def expand_begin_def Let_def)

text \<open>
  C6 as stated fails: expand clause \<open>c1\<close>, collapse it, and expand it again before the
  first request is answered. After the second click \<open>c1\<close> is in the pending set with
  one request outstanding; the third click sends a second request for \<open>c1\<close>.
\<close>

theorem reexpand_while_pending_two_in_flight:
  "''c1'' \<in> loadingExplanations (view (run [Expand ''c1'', Expand ''c1''] (da_init session_s1)))
   \<and> in_flight (run [Expand ''c1'', Expand ''c1''] (da_init session_s1)) = [''c1'']
   \<and> in_flight (run [Expand ''c1'', Expand ''c1'', Expand ''c1''] (da_init session_s1))
       = [''c1'', ''c1'']
   \<and> sent (run [Expand ''c1'', Expand ''c1'', Expand ''c1''] (da_init session_s1))
       = [Request POST ''/explain/s1/c1'' NoBody, Request POST ''/explain/s1/c1'' NoBody]"
  by (simp add: da_init_def da_mount_def expand_begin_def Let_def explain_request_def
      session_s1_def)

text \<open>
  C7 (as the code has it): while the analysis view stays mounted, once the explanation of
  clause \<open>c\<close> has been fetched successfully, the cache holds it, and after any further
  clicks and answers in that view the clause is still cached and a click on \<open>c\<close> sends
  no request and leaves the cache as it is. The cache is state of the mounted view, not
  of the session.
\<close>

theorem expand_after_fetch_uses_cache:
  assumes "i < length (in_flight s)" and "in_flight s ! i = c"
  shows "clauseExplanations (view (da_step (Settle i (Resolved e)) s)) c = Some e
       \<and> clauseExplanations (view (da_step (Expand c) (da_step (Settle i (Resolved e)) s))) c
           = Some e
       \<and> clauseExplanations (view (run evs (da_step (Settle i (Resolved e)) s))) c \<noteq> None
       \<and> sent (da_step (Expand c) (run evs (da_step (Settle i (Resolved e)) s)))
           = sent (run evs (da_step (Settle i (Resolved e)) s))
       \<and> in_flight (da_step (Expand c) (run evs (da_step (Settle i (Resolved e)) s)))
           = in_flight (run evs (da_step (Settle i (Resolved e)) s))
       \<and> snd (handleClauseExpand reply c (view (run evs (da_step (Settle i (Resolved e)) s))))
           = []"
proof -
  let ?s1 = "da_step (Settle i (Resolved e)) s"
  have c1: "clauseExplanations (view ?s1) c = Some e"
    using settle_resolved_caches [OF assms(1), of e] assms(2) by simp
  then have c1': "clauseExplanations (view ?s1) c \<noteq> None"
    by simp
  have c2: "clauseExplanations (view (run evs ?s1)) c \<noteq> None"
    using c1' by (rule cached_run)
  show ?thesis
    using c1 c2 expand_cached_no_fetch [OF c2, of reply] expand_cached_no_fetch [OF c1', of reply]
    by simp
qed

theorem expand_after_fetch_uses_cache_witness:
  "0 < length (in_flight (run [Expand ''c1''] (da_init session_s1)))
   \<and> in_flight (run [Expand ''c1''] (da_init session_s1)) ! 0 = ''c1''
   \<and> sent (run [Expand ''c1'', Settle 0 (Resolved c1_explanation), Expand ''c2'', Expand ''c1'']
              (da_init session_s1))
       = [Request POST ''/explain/s1/c1'' NoBody, Request POST ''/explain/s1/c2'' NoBody]
   \<and> clauseExplanations
        (view (run [Expand ''c1'', Settle 0 (Resolved c1_explanation), Expand ''c1'', Expand ''c1'']
                 (da_init session_s1))) ''c1''
       = Some c1_explanation"
  using expand_after_fetch_uses_cache
          [of 0 "run [Expand ''c1''] (da_init session_s1)" "''c1''" c1_explanation
              "[Expand ''c2'']" "Resolved c1_explanation"]
  by (simp add: da_init_def da_mount_def expand_begin_def expand_settle_def explainClause_def
      api_call_def Let_def explain_request_def session_s1_def)

text \<open>
  C7 as stated fails: expand clause \<open>c1\<close> and let its explanation arrive, so that it is
  cached after one request; go to the assistant tab and back to the Analysis tab, the
  session being the same; expand \<open>c1\<close> again. A second request for \<open>c1\<close> is sent.
\<close>

theorem reexpand_after_tab_switch_fetches_again:
  "cached_explanation
     (tab_run [InView (Expand ''c1''), InView (Settle 0 (Resolved c1_explanation))]
        (tab_init app_lease)) ''c1''
     = Some c1_explanation
   \<and> all_sent
       (tab_run [InView (Expand ''c1''), InView (Settle 0 (Resolved c1_explanation))]
          (tab_init app_lease))
     = [Request POST ''/explain/s1/c1'' NoBody]
   \<and> sessionData (coordinator
       (tab_run [InView (Expand ''c1''), InView (Settle 0 (Resolved c1_explanation)),
                 TabChange 2, TabChange 1, InView (Expand ''c1'')]
          (tab_init app_lease)))
     = sessionData app_lease
   \<and> all_sent
       (tab_run [InView (Expand ''c1''), InView (Settle 0 (Resolved c1_explanation)),
                 TabChange 2, TabChange 1, InView (Expand ''c1'')]
          (tab_init app_lease))
     = [Request POST ''/explain/s1/c1'' NoBody, Request POST ''/explain/s1/c1'' NoBody]"
  by (simp add: tab_init_def analysis_props_def app_lease_def session_lease_def da_init_def
      da_mount_def expand_begin_def expand_settle_def explainClause_def api_call_def Let_def
      explain_request_def handleTabChange_def all_sent_def cached_explanation_def)

section \<open>Network failures\<close>

text \<open>
  C8 (as the code has it): every network failure is caught in the handler that made the
  call, and what the handler then does depends on the operation.
  Upload: an error message is shown, and \<open>sessionData\<close> and \<open>documentAnalysis\<close> are
  reset to null.
  Session load: nothing is shown and the state is unchanged.
  Explain: nothing is shown; the clause is expanded, its pending flag is cleared, and the
  cached explanations, the summary and the session are unchanged.
  Summarize: the summary is replaced by the text "Failed to generate summary. Please try
  again."; the cached explanations and the session are unchanged.
  Chat: an error message is shown, the composer is emptied, and the history and the
  session are unchanged.
\<close>

theorem network_failure_effects:
  "handleDocumentUpload (Rejected err) file a =
     (a\<lparr>app_error := Some (or_default (err_message err) ''Failed to upload document''),
        sessionData := None, documentAnalysis := None, app_loading := False\<rparr>,
      [Request POST ''/upload'' (FormFile file)])
   \<and> loadSession (Rejected err) sid a = (a, [Request GET (''/sessions/'' @ sid) NoBody])
   \<and> (expandedClause v \<noteq> Some c \<and> clauseExplanations v c = None \<longrightarrow>
        handleClauseExpand (Rejected err) c v =
          (v\<lparr>expandedClause := Some c, loadingExplanations := loadingExplanations v - {c}\<rparr>,
           [explain_request (sessionId (da_session v)) c]))
   \<and> (sessionId (da_session v) \<noteq> [] \<longrightarrow>
        handleGenerateSummary (Rejected err) v =
          (v\<lparr>documentSummary := Some ''Failed to generate summary. Please try again.'',
             loadingSummary := False\<rparr>,
           [Request POST (''/summarize/'' @ sessionId (da_session v)) NoBody]))
   \<and> (trim (chat_message s) \<noteq> [] \<and> \<not> chat_loading s \<and> sessionId (chat_session s) \<noteq> [] \<longrightarrow>
        handleSendMessage (Rejected err) now s =
          (s\<lparr>chat_message := [], chat_loading := False,
             chat_error := Some (if err_status err = Some 404
                                 then ''Chat session not found. Please reload the page.''
                                 else or_default (err_message err) ''Failed to send message'')\<rparr>,
           [Request POST (''/chat/'' @ sessionId (chat_session s))
              (JsonContent (trim (chat_message s)))]))"
  by (simp add: handleDocumentUpload_def uploadDocument_def api_call_def Let_def
      loadSession_def getSession_def handleClauseExpand_def explainClause_def
      handleGenerateSummary_def summarizeDocument_def handleSendMessage_def
      chatWithDocument_def Error_def or_default_def)

theorem network_failure_effects_witness:
  "expandedClause (da_mount session_s1) \<noteq> Some ''c1''
   \<and> clauseExplanations (da_mount session_s1) ''c1'' = None
   \<and> sessionId (da_session (da_mount session_s1)) \<noteq> []
   \<and> trim (chat_message chat_typing) \<noteq> [] \<and> \<not> chat_loading chat_typing
   \<and> sessionId (chat_session chat_typing) \<noteq> []
   \<and> sessionData (fst (handleDocumentUpload (Rejected network_error) ''Other.pdf'' app_s1)) = None
   \<and> loadSession (Rejected network_error) ''s2'' app_s1
        = (app_s1, [Request GET ''/sessions/s2'' NoBody])
   \<and> da_error (fst (handleClauseExpand (Rejected network_error) ''c1'' (da_mount session_s1)))
        = None
   \<and> documentSummary (fst (handleGenerateSummary (Rejected network_error) (da_mount session_s1)))
        = Some ''Failed to generate summary. Please try again.''
   \<and> chat_error (fst (handleSendMessage (Rejected network_error) ''t0'' chat_typing))
        = Some ''Network Error''
   \<and> chat_messages (fst (handleSendMessage (Rejected network_error) ''t0'' chat_typing)) = []"
  using network_failure_effects
          [of network_error "''Other.pdf''" app_s1 "''s2''" "da_mount session_s1" "''c1''"
              chat_typing "''t0''"]
  by (simp add: da_mount_def session_s1_def chat_typing_def trim_example network_error_def
      or_default_def app_s1_def)

text \<open>
  C8 as stated fails: a failed upload drops the session that was held, a failed summary
  request overwrites the summary that was shown, and a failed explanation request leaves
  no message.
\<close>

theorem network_failure_changes_state:
  "sessionData (fst (handleDocumentUpload (Rejected network_error) ''Other.pdf'' app_s1))
     \<noteq> sessionData app_s1
   \<and> documentSummary (fst (handleGenerateSummary (Rejected network_error)
        ((da_mount session_s1)\<lparr>documentSummary := Some ''A one-year lease.''\<rparr>)))
     \<noteq> Some ''A one-year lease.''
   \<and> da_error (fst (handleClauseExpand (Rejected network_error) ''c1'' (da_mount session_s1)))
     = None"
  by (simp add: handleDocumentUpload_def uploadDocument_def api_call_def network_error_def
      app_s1_def Let_def handleGenerateSummary_def summarizeDocument_def da_mount_def
      session_s1_def handleClauseExpand_def explainClause_def)

end
